theory Spec2Isabelle
  imports Main "HOL-Library.Code_Target_Numeral"
begin

section \<open>Go values used by the read-path resolvers\<close>

text \<open>
  A Go \<open>error\<close> value is identified by its message (\<open>err.Error()\<close>); the interface value
  \<open>nil\<close> is \<open>None\<close> of \<open>error option\<close>. A function returning \<open>(*T, error)\<close> returns a pair
  \<open>T option \<times> error option\<close> (\<open>None\<close> is the nil pointer), and reading a field through a nil
  pointer is the outcome \<open>Panic\<close>. Go compares an error with a sentinel by identity; here
  two errors with the same message are the same error, so an error that carries the text
  of a sentinel counts as that sentinel.
\<close>

datatype error = Error string

fun Error_msg :: "error \<Rightarrow> string" where
  "Error_msg (Error s) = s"

definition errors_New :: "string \<Rightarrow> error" where
  "errors_New s = Error s"

datatype 'a go_result = Return "'a option" "error option" | Panic

subsection \<open>Decimal strings\<close>

definition is_digit :: "char \<Rightarrow> bool" where
  "is_digit c = (48 \<le> (of_char c :: nat) \<and> (of_char c :: nat) \<le> 57)"

definition digit_val :: "char \<Rightarrow> nat" where
  "digit_val c = of_char c - 48"

definition digit_char :: "nat \<Rightarrow> char" where
  "digit_char d = ''0123456789'' ! d"

definition dec_to_nat :: "string \<Rightarrow> nat" where
  "dec_to_nat s = foldl (\<lambda>acc c. acc * 10 + digit_val c) 0 s"

fun nat_to_dec :: "nat \<Rightarrow> string" where
  "nat_to_dec n =
     (if n < 10 then [digit_char n] else nat_to_dec (n div 10) @ [digit_char (n mod 10)])"

declare nat_to_dec.simps [simp del]

definition int_to_dec :: "int \<Rightarrow> string" where
  "int_to_dec i = (if i < 0 then CHR ''-'' # nat_to_dec (nat (- i)) else nat_to_dec (nat i))"

text \<open>
  A signed decimal numeral: an optional sign followed by at least one digit, and nothing
  else. The result is the sign (\<open>True\<close> for \<open>-\<close>) and the magnitude.
\<close>

definition signed_dec :: "string \<Rightarrow> (bool \<times> nat) option" where
  "signed_dec s =
     (let neg = (s \<noteq> [] \<and> hd s = CHR ''-'');
          ds = (if s \<noteq> [] \<and> (hd s = CHR ''+'' \<or> hd s = CHR ''-'') then tl s else s)
      in if ds = [] then None
         else if list_all is_digit ds then Some (neg, dec_to_nat ds)
         else None)"

text \<open>
  \<open>strconv.ParseInt(s, 10, 64)\<close> and \<open>strconv.FormatInt(i, 10)\<close> of the Go standard library.
  The error keeps the \<open>Err\<close> field of the \<open>*NumError\<close>: \<open>ErrSyntax\<close> or \<open>ErrRange\<close>.
  \<open>ParseUint_loop\<close> is the byte loop of \<open>strconv.ParseUint\<close> for base 10 and 64 bits: it
  stops at the first byte that is not a digit, or at the first digit that takes the value
  beyond \<open>2^64 - 1\<close>, whichever comes first.
\<close>

definition ErrSyntax :: error where
  "ErrSyntax = Error ''invalid syntax''"

definition ErrRange :: error where
  "ErrRange = Error ''value out of range''"

fun ParseUint_loop :: "nat \<Rightarrow> string \<Rightarrow> nat \<times> error option" where
  "ParseUint_loop n [] = (n, None)"
| "ParseUint_loop n (c # cs) =
     (if \<not> is_digit c then (0, Some ErrSyntax)
      else if n \<ge> (2 ^ 64 - 1) div 10 + 1 then (2 ^ 64 - 1, Some ErrRange)
      else if n * 10 + digit_val c > 2 ^ 64 - 1 then (2 ^ 64 - 1, Some ErrRange)
      else ParseUint_loop (n * 10 + digit_val c) cs)"

definition ParseUint :: "string \<Rightarrow> nat \<times> error option" where
  "ParseUint s = (if s = [] then (0, Some ErrSyntax) else ParseUint_loop 0 s)"

definition ParseInt :: "string \<Rightarrow> error + int" where
  "ParseInt s =
     (if s = [] then Inl ErrSyntax
      else
        (let neg = (hd s = CHR ''-'');
             s1 = (if hd s = CHR ''+'' \<or> hd s = CHR ''-'' then tl s else s);
             (un, err) = ParseUint s1
         in case (case err of
                    None \<Rightarrow> None
                  | Some e \<Rightarrow> if e \<noteq> ErrRange then Some e else None) of
              Some e \<Rightarrow> Inl e
            | None \<Rightarrow>
                if \<not> neg \<and> un \<ge> 2 ^ 63 then Inl ErrRange
                else if neg \<and> un > 2 ^ 63 then Inl ErrRange
                else Inr (if neg then - int un else int un)))"

definition FormatInt :: "int \<Rightarrow> string" where
  "FormatInt i = int_to_dec i"

subsection \<open>NumericDelta\<close>

text \<open>
  Modelled from the spec: the error \<open>util.ComputeNewBalance\<close> returns on a malformed
  operand (\<open>common/util\<close> is not among the source files at hand). The spec calls it
  ComputationError.
\<close>

definition ComputationError :: error where
  "ComputationError = Error ''[ComputeNewBalance] invalid balance''"

text \<open>
  Modelled from the spec: the operands of NumericDelta.apply are big integers, unsigned or
  signed, encoded as decimal strings; anything else is malformed. The parser of
  \<open>common/util\<close> is not among the source files at hand.
\<close>

definition bigint_of_string :: "string \<Rightarrow> int option" where
  "bigint_of_string s =
     (case signed_dec s of
        None \<Rightarrow> None
      | Some (neg, un) \<Rightarrow> Some (if neg then - int un else int un))"

text \<open>
  Modelled from the spec: a balance is serialised as a decimal string, with its sign when
  negative (the spec notes that the source does not validate the sign of the result).
\<close>

definition string_of_bigint :: "int \<Rightarrow> string" where
  "string_of_bigint i = int_to_dec i"

text \<open>
  Modelled from the spec: \<open>util.ComputeNewBalance\<close> is declared in \<open>common/util\<close>, whose
  source is not among the files at hand. The spec's NumericDelta.apply takes a base balance
  and a signed delta, both decimal strings, and yields base + delta as a decimal string,
  exact at any magnitude; a malformed operand is a ComputationError. Only the general
  asset kind is described, which is the one the resolver passes.
\<close>

definition ComputeNewBalance :: "int \<Rightarrow> string \<Rightarrow> string \<Rightarrow> error + string" where
  "ComputeNewBalance assetType balance balanceDelta =
     (case bigint_of_string balance of
        None \<Rightarrow> Inl ComputationError
      | Some b \<Rightarrow>
          (case bigint_of_string balanceDelta of
             None \<Rightarrow> Inl ComputationError
           | Some d \<Rightarrow> Inr (string_of_bigint (b + d))))"

section \<open>Data model\<close>

text \<open>
  The rows of the history and mempool stores carry the fields the resolvers read;
  \<open>int64\<close> values are integers (no arithmetic is done on them here).
\<close>

record AccountHistory =
  AccountHistory_AccountIndex :: int
  AccountHistory_AccountName :: string
  AccountHistory_PublicKey :: string
  AccountHistory_AccountNameHash :: string
  AccountHistory_L1Address :: string
  AccountHistory_Nonce :: int

record Account =
  Account_AccountIndex :: int
  Account_AccountName :: string
  Account_PublicKey :: string
  Account_AccountNameHash :: string
  Account_L1Address :: string
  Account_Nonce :: int

record MempoolTx =
  MempoolTx_Nonce :: int

record AccountAssetHistory =
  AccountAssetHistory_Balance :: string

record AccountAsset =
  AccountAsset_AccountIndex :: int
  AccountAsset_AssetId :: int
  AccountAsset_Balance :: string

record MempoolTxDetail =
  MempoolTxDetail_Balance :: string
  MempoolTxDetail_BalanceDelta :: string

text \<open>
  Names the two resolvers use and that are declared in other packages: the key derivation
  of \<open>util\<close>, the cache TTL, the asset kind and the two not-found sentinels. They are
  parameters of the model.
\<close>

record Package =
  util_GetAccountKey :: "int \<Rightarrow> string"
  util_GetAccountAssetUniqueKey :: "int \<Rightarrow> int \<Rightarrow> string"
  util_GetLockKey :: "string \<Rightarrow> string"
  BalanceExpiryTime :: int
  commonAsset_GeneralAssetType :: int
  asset_ErrNotFound :: error
  mempool_ErrNotFound :: error

text \<open>
  The service context: what each remote collaborator answers during one resolution.
  \<open>TryAcquireLock\<close> answers \<open>None\<close> when the lock is held by this attempt and an error when
  it is not (denied, or a backend failure).
\<close>

record ServiceContext =
  AccountHistoryModel_GetAccountByAccountIndex :: "int \<Rightarrow> AccountHistory option \<times> error option"
  RedisConnection_Get :: "string \<Rightarrow> string \<times> error option"
  TryAcquireLock :: "string \<Rightarrow> error option"
  MempoolModel_GetLatestL2MempoolTxByAccountIndex :: "int \<Rightarrow> MempoolTx option \<times> error option"
  AssetHistoryModel_GetSingleAccountAssetHistory ::
    "int \<Rightarrow> int \<Rightarrow> AccountAssetHistory option \<times> error option"
  AssetModel_GetSingleAccountAsset :: "int \<Rightarrow> int \<Rightarrow> AccountAsset option \<times> error option"
  MempoolDetailModel_GetLatestAccountAssetMempoolDetail ::
    "int \<Rightarrow> int \<Rightarrow> int \<Rightarrow> MempoolTxDetail option \<times> error option"

text \<open>
  The remote calls of one resolution, in the order they are made. \<open>GetRedisLockByKey\<close>
  only builds the lock handle, which is identified with its key; the calls on the handle
  are \<open>TryAcquireLock\<close> and \<open>Release\<close>. Log output is not recorded.
\<close>

datatype call =
    Call_GetAccountByAccountIndex int
  | Call_Redis_Get string
  | Call_Redis_Expire string int
  | Call_Redis_Setex string string int
  | Call_TryAcquireLock string
  | Call_Release string
  | Call_GetLatestL2MempoolTxByAccountIndex int
  | Call_GetSingleAccountAssetHistory int int
  | Call_GetSingleAccountAsset int int
  | Call_GetLatestAccountAssetMempoolDetail int int int

fun cache_writes :: "call list \<Rightarrow> (string \<times> string \<times> int) list" where
  "cache_writes [] = []"
| "cache_writes (Call_Redis_Setex k v ttl # cs) = (k, v, ttl) # cache_writes cs"
| "cache_writes (c # cs) = cache_writes cs"

fun releases :: "call list \<Rightarrow> string list" where
  "releases [] = []"
| "releases (Call_Release k # cs) = k # releases cs"
| "releases (c # cs) = releases cs"

fun is_lower_tier :: "call \<Rightarrow> bool" where
  "is_lower_tier (Call_TryAcquireLock k) = True"
| "is_lower_tier (Call_GetLatestL2MempoolTxByAccountIndex i) = True"
| "is_lower_tier (Call_GetSingleAccountAssetHistory i a) = True"
| "is_lower_tier (Call_GetSingleAccountAsset i a) = True"
| "is_lower_tier (Call_GetLatestAccountAssetMempoolDetail i a k) = True"
| "is_lower_tier (Call_Redis_Setex k v ttl) = True"
| "is_lower_tier c = False"

fun is_repopulation :: "call \<Rightarrow> bool" where
  "is_repopulation (Call_Redis_Setex k v ttl) = True"
| "is_repopulation (Call_Release k) = True"
| "is_repopulation c = False"

section \<open>The resolvers\<close>

definition GetLatestAccountInfo ::
  "Package \<Rightarrow> ServiceContext \<Rightarrow> int \<Rightarrow> Account go_result \<times> call list" where
  "GetLatestAccountInfo pkg svcCtx accountIndex =
     (let t1 = [Call_GetAccountByAccountIndex accountIndex] in
      case AccountHistoryModel_GetAccountByAccountIndex svcCtx accountIndex of
        (accountHistory, err) \<Rightarrow>
      case err of
        Some err \<Rightarrow>
          (Return None (Some (errors_New
             (''[GetLatestAccountInfoByLock] '' @ Error_msg err @
              ''. invalid accountIndex '' @ int_to_dec accountIndex))), t1)
      | None \<Rightarrow>
      case accountHistory of
        None \<Rightarrow> (Panic, t1)
      | Some accountHistory \<Rightarrow>
          (let accountInfo =
                 \<lparr>Account_AccountIndex = AccountHistory_AccountIndex accountHistory,
                  Account_AccountName = AccountHistory_AccountName accountHistory,
                  Account_PublicKey = AccountHistory_PublicKey accountHistory,
                  Account_AccountNameHash = AccountHistory_AccountNameHash accountHistory,
                  Account_L1Address = AccountHistory_L1Address accountHistory,
                  Account_Nonce = AccountHistory_Nonce accountHistory\<rparr>;
               key = util_GetAccountKey pkg accountIndex;
               t2 = t1 @ [Call_Redis_Get key]
           in case RedisConnection_Get svcCtx key of
                (nonceStr, err) \<Rightarrow>
              case err of
                Some err \<Rightarrow> (Return None (Some err), t2)
              | None \<Rightarrow>
                  if nonceStr \<noteq> [] then
                    (case ParseInt nonceStr of
                       Inl err \<Rightarrow> (Return None (Some err), t2)
                     | Inr nonce \<Rightarrow>
                         (Return (Some (accountInfo\<lparr>Account_Nonce := nonce\<rparr>)) None,
                          t2 @ [Call_Redis_Expire key (BalanceExpiryTime pkg)]))
                  else
                    (let lockKey = util_GetLockKey pkg key;
                         redisLock = lockKey;
                         err = TryAcquireLock svcCtx redisLock;
                         (l2MempoolTx, err) =
                            MempoolModel_GetLatestL2MempoolTxByAccountIndex svcCtx accountIndex;
                         t3 = t2 @ [Call_TryAcquireLock redisLock,
                                    Call_GetLatestL2MempoolTxByAccountIndex accountIndex]
                     in if err \<noteq> None then
                          (if err \<noteq> Some (mempool_ErrNotFound pkg) then (Return None err, t3)
                           else (Return (Some accountInfo) None,
                                 t3 @ (if err = None then [Call_Release redisLock] else [])))
                        else
                          (case l2MempoolTx of
                             None \<Rightarrow> (Panic, t3)
                           | Some tx \<Rightarrow>
                               (let accountInfo = accountInfo\<lparr>Account_Nonce := MempoolTx_Nonce tx\<rparr>
                                in (Return (Some accountInfo) None,
                                    t3 @ (if err = None
                                          then [Call_Redis_Setex key
                                                  (FormatInt (Account_Nonce accountInfo))
                                                  (BalanceExpiryTime pkg),
                                                Call_Release redisLock]
                                          else [])))))))"

definition GetLatestAsset ::
  "Package \<Rightarrow> ServiceContext \<Rightarrow> int \<Rightarrow> int \<Rightarrow> AccountAsset go_result \<times> call list" where
  "GetLatestAsset pkg svcCtx accountIndex assetId =
     (let assetInfo =
            \<lparr>AccountAsset_AccountIndex = accountIndex,
             AccountAsset_AssetId = assetId,
             AccountAsset_Balance = ''0''\<rparr>;
          key = util_GetAccountAssetUniqueKey pkg accountIndex assetId;
          lockKey = util_GetLockKey pkg key;
          t1 = [Call_Redis_Get key]
      in case RedisConnection_Get svcCtx key of
           (latestBalance, err) \<Rightarrow>
         case err of
           Some err \<Rightarrow> (Return None (Some err), t1)
         | None \<Rightarrow>
             if latestBalance \<noteq> [] then
               (Return (Some (assetInfo\<lparr>AccountAsset_Balance := latestBalance\<rparr>)) None, t1)
             else
               (let redisLock = lockKey;
                    tryLockErr = TryAcquireLock svcCtx redisLock;
                    t2 = t1 @ [Call_TryAcquireLock redisLock,
                               Call_GetSingleAccountAssetHistory accountIndex assetId];
                    base =
                      (case AssetHistoryModel_GetSingleAccountAssetHistory svcCtx
                              accountIndex assetId of
                         (resAccountSingleAsset, err) \<Rightarrow>
                       case err of
                         Some err \<Rightarrow>
                           if err \<noteq> asset_ErrNotFound pkg then
                             Inl (Return None (Some (errors_New
                                    (''[GetLatestAssetByLock] '' @ Error_msg err @
                                     ''. Invalid accountIndex/assetId '' @
                                     int_to_dec accountIndex @ ''/'' @ int_to_dec assetId))),
                                  t2 @ (if tryLockErr = None then [Call_Release redisLock] else []))
                           else
                             (let (accountAssetInfo, err) =
                                    AssetModel_GetSingleAccountAsset svcCtx accountIndex assetId;
                                  t3 = t2 @ [Call_GetSingleAccountAsset accountIndex assetId]
                              in if err \<noteq> None \<and> err \<noteq> Some (asset_ErrNotFound pkg) then
                                   Inl (Return None err,
                                        t3 @ (if tryLockErr = None
                                              then [Call_Release redisLock] else []))
                                 else
                                   (case accountAssetInfo of
                                      None \<Rightarrow> Inl (Panic, t3)
                                    | Some a \<Rightarrow>
                                        Inr (assetInfo\<lparr>AccountAsset_Balance :=
                                                         AccountAsset_Balance a\<rparr>, t3)))
                       | None \<Rightarrow>
                           (case resAccountSingleAsset of
                              None \<Rightarrow> Inl (Panic, t2)
                            | Some r \<Rightarrow>
                                Inr (assetInfo\<lparr>AccountAsset_Balance :=
                                                 AccountAssetHistory_Balance r\<rparr>, t2)))
                in case base of
                     Inl exit \<Rightarrow> exit
                   | Inr (assetInfo, t4) \<Rightarrow>
                       (let t5 = t4 @ [Call_GetLatestAccountAssetMempoolDetail accountIndex assetId
                                         (commonAsset_GeneralAssetType pkg)];
                            pending =
                              (case MempoolDetailModel_GetLatestAccountAssetMempoolDetail svcCtx
                                      accountIndex assetId (commonAsset_GeneralAssetType pkg) of
                                 (mempoolDetail, err) \<Rightarrow>
                               case err of
                                 Some err \<Rightarrow>
                                   if err \<noteq> mempool_ErrNotFound pkg then
                                     Inl (Return None (Some (errors_New
                                            (''[GetLatestAssetByLock] '' @ Error_msg err))),
                                          t5 @ [Call_Release redisLock])
                                   else Inr assetInfo
                               | None \<Rightarrow>
                                   (case mempoolDetail of
                                      None \<Rightarrow> Inl (Panic, t5)
                                    | Some d \<Rightarrow>
                                        (case ComputeNewBalance (commonAsset_GeneralAssetType pkg)
                                                (MempoolTxDetail_Balance d)
                                                (MempoolTxDetail_BalanceDelta d) of
                                           Inl err \<Rightarrow>
                                             Inl (Return None (Some err),
                                                  t5 @ [Call_Release redisLock])
                                         | Inr latestBalance \<Rightarrow>
                                             Inr (assetInfo\<lparr>AccountAsset_Balance :=
                                                              latestBalance\<rparr>))))
                        in case pending of
                             Inl exit \<Rightarrow> exit
                           | Inr assetInfo \<Rightarrow>
                               (Return (Some assetInfo) None,
                                t5 @ (if tryLockErr = None
                                      then [Call_Redis_Setex key (AccountAsset_Balance assetInfo)
                                              (BalanceExpiryTime pkg),
                                            Call_Release redisLock]
                                      else [])))))"

section \<open>A concrete deployment\<close>

text \<open>
  One instance of the parameters, used to run the resolvers on concrete requests: account
  42 is persisted with nonce 5, the cache is empty, the lock is free, and neither the
  mempool nor the asset tables know the account.
\<close>

definition example_pkg :: Package where
  "example_pkg =
     \<lparr>util_GetAccountKey = (\<lambda>i. ''account::'' @ int_to_dec i),
      util_GetAccountAssetUniqueKey = (\<lambda>i a. ''asset::'' @ int_to_dec i @ ''::'' @ int_to_dec a),
      util_GetLockKey = (\<lambda>k. ''lock::'' @ k),
      BalanceExpiryTime = 30,
      commonAsset_GeneralAssetType = 1,
      asset_ErrNotFound = Error ''sql: no rows in result set'',
      mempool_ErrNotFound = Error ''sql: no rows in result set''\<rparr>"

definition example_history :: AccountHistory where
  "example_history =
     \<lparr>AccountHistory_AccountIndex = 42,
      AccountHistory_AccountName = ''alice.legend'',
      AccountHistory_PublicKey = ''pk'',
      AccountHistory_AccountNameHash = ''0a'',
      AccountHistory_L1Address = ''0x01'',
      AccountHistory_Nonce = 5\<rparr>"

definition example_svc :: ServiceContext where
  "example_svc =
     \<lparr>AccountHistoryModel_GetAccountByAccountIndex = (\<lambda>i. (Some example_history, None)),
      RedisConnection_Get = (\<lambda>k. ([], None)),
      TryAcquireLock = (\<lambda>k. None),
      MempoolModel_GetLatestL2MempoolTxByAccountIndex =
        (\<lambda>i. (None, Some (Error ''sql: no rows in result set''))),
      AssetHistoryModel_GetSingleAccountAssetHistory =
        (\<lambda>i a. (None, Some (Error ''sql: no rows in result set''))),
      AssetModel_GetSingleAccountAsset =
        (\<lambda>i a. (None, Some (Error ''sql: no rows in result set''))),
      MempoolDetailModel_GetLatestAccountAssetMempoolDetail =
        (\<lambda>i a k. (None, Some (Error ''sql: no rows in result set'')))\<rparr>"

text \<open>The lock is held by another process.\<close>

definition lock_denied :: "string \<Rightarrow> error option" where
  "lock_denied k = Some (Error ''the lock has been used, re-try later'')"

text \<open>A pending transaction of account 42 with nonce 7.\<close>

definition pending_tx :: "int \<Rightarrow> MempoolTx option \<times> error option" where
  "pending_tx i = (Some \<lparr>MempoolTx_Nonce = 7\<rparr>, None)"

text \<open>A finalized balance snapshot of 5.\<close>

definition history_balance :: "int \<Rightarrow> int \<Rightarrow> AccountAssetHistory option \<times> error option" where
  "history_balance i a = (Some \<lparr>AccountAssetHistory_Balance = ''5''\<rparr>, None)"

text \<open>A pending delta of -1 on a base of 10^20, and one whose delta is not a number.\<close>

definition pending_delta :: "int \<Rightarrow> int \<Rightarrow> int \<Rightarrow> MempoolTxDetail option \<times> error option" where
  "pending_delta i a k =
     (Some \<lparr>MempoolTxDetail_Balance = ''100000000000000000000'',
            MempoolTxDetail_BalanceDelta = ''-1''\<rparr>, None)"

definition malformed_delta :: "int \<Rightarrow> int \<Rightarrow> int \<Rightarrow> MempoolTxDetail option \<times> error option" where
  "malformed_delta i a k =
     (Some \<lparr>MempoolTxDetail_Balance = ''100'', MempoolTxDetail_BalanceDelta = ''abc''\<rparr>, None)"

section \<open>Decimal strings: printing and parsing agree\<close>

lemma lt10_cases:
  "(d::nat) < 10 \<Longrightarrow>
     d = 0 \<or> d = 1 \<or> d = 2 \<or> d = 3 \<or> d = 4 \<or> d = 5 \<or> d = 6 \<or> d = 7 \<or> d = 8 \<or> d = 9"
  by arith

lemma digit_val_digit_char:
  assumes "d < 10" shows "digit_val (digit_char d) = d"
  using lt10_cases [OF assms] by (elim disjE) (simp_all add: digit_val_def digit_char_def)

lemma is_digit_digit_char:
  assumes "d < 10" shows "is_digit (digit_char d)"
  using lt10_cases [OF assms] by (elim disjE) (simp_all add: is_digit_def digit_char_def)

lemma nat_to_dec_nonempty: "nat_to_dec n \<noteq> []"
  by (subst nat_to_dec.simps) simp

lemma dec_to_nat_snoc: "dec_to_nat (s @ [c]) = dec_to_nat s * 10 + digit_val c"
  by (simp add: dec_to_nat_def)

lemma nat_to_dec_digits: "list_all is_digit (nat_to_dec n)"
proof (induction n rule: nat_to_dec.induct)
  case (1 n)
  show ?case
  proof (cases "n < 10")
    case True
    then show ?thesis by (subst nat_to_dec.simps) (simp add: is_digit_digit_char)
  next
    case False
    with 1 show ?thesis by (subst nat_to_dec.simps) (simp add: is_digit_digit_char)
  qed
qed

lemma dec_to_nat_nat_to_dec: "dec_to_nat (nat_to_dec n) = n"
proof (induction n rule: nat_to_dec.induct)
  case (1 n)
  show ?case
  proof (cases "n < 10")
    case True
    then show ?thesis
      by (subst nat_to_dec.simps) (simp add: dec_to_nat_def digit_val_digit_char)
  next
    case False
    with 1 show ?thesis
      by (subst nat_to_dec.simps) (simp add: dec_to_nat_snoc digit_val_digit_char)
  qed
qed

lemma hd_nat_to_dec_digit: "is_digit (hd (nat_to_dec n))"
proof -
  obtain c cs where eq: "nat_to_dec n = c # cs"
    using nat_to_dec_nonempty [of n] by (cases "nat_to_dec n") auto
  with nat_to_dec_digits [of n] show ?thesis by simp
qed

lemma hd_nat_to_dec_no_sign:
  "hd (nat_to_dec n) \<noteq> CHR ''-''" "hd (nat_to_dec n) \<noteq> CHR ''+''"
  using hd_nat_to_dec_digit [of n] by (auto simp: is_digit_def)

lemma signed_dec_int_to_dec: "signed_dec (int_to_dec i) = Some (i < 0, nat \<bar>i\<bar>)"
proof (cases "i < 0")
  case True
  then show ?thesis
    by (simp add: signed_dec_def int_to_dec_def nat_to_dec_nonempty nat_to_dec_digits
        dec_to_nat_nat_to_dec)
next
  case False
  then show ?thesis
    by (simp add: signed_dec_def int_to_dec_def nat_to_dec_nonempty nat_to_dec_digits
        dec_to_nat_nat_to_dec hd_nat_to_dec_no_sign)
qed

lemma bigint_of_string_string_of_bigint: "bigint_of_string (string_of_bigint i) = Some i"
  by (simp add: bigint_of_string_def string_of_bigint_def signed_dec_int_to_dec)

lemma foldl_digits_mono: "n \<le> foldl (\<lambda>acc c. acc * 10 + digit_val c) n cs"
proof (induction cs arbitrary: n)
  case Nil
  show ?case by simp
next
  case (Cons c cs)
  have "n \<le> n * 10 + digit_val c" by simp
  also have "\<dots> \<le> foldl (\<lambda>acc c. acc * 10 + digit_val c) (n * 10 + digit_val c) cs"
    by (rule Cons.IH)
  finally show ?case by simp
qed

lemma ParseUint_loop_digits:
  "list_all is_digit cs \<Longrightarrow> foldl (\<lambda>acc c. acc * 10 + digit_val c) n cs < 2 ^ 64 \<Longrightarrow>
     ParseUint_loop n cs = (foldl (\<lambda>acc c. acc * 10 + digit_val c) n cs, None)"
proof (induction cs arbitrary: n)
  case Nil
  show ?case by simp
next
  case (Cons c cs)
  from Cons.prems have digit: "is_digit c" and digits: "list_all is_digit cs"
    and bound: "foldl (\<lambda>acc c. acc * 10 + digit_val c) (n * 10 + digit_val c) cs < 2 ^ 64"
    by simp_all
  from foldl_digits_mono [of "n * 10 + digit_val c" cs] bound
  have step: "n * 10 + digit_val c < 2 ^ 64" by simp
  then have fits: "\<not> n * 10 + digit_val c > 2 ^ 64 - 1" by simp
  from step have cutoff: "\<not> n \<ge> (2 ^ 64 - 1) div 10 + 1" by simp
  from Cons.IH [OF digits bound] digit fits cutoff show ?case by simp
qed

lemma ParseUint_nat_to_dec: "n < 2 ^ 64 \<Longrightarrow> ParseUint (nat_to_dec n) = (n, None)"
  using ParseUint_loop_digits [of "nat_to_dec n" 0] dec_to_nat_nat_to_dec [of n]
  by (simp add: ParseUint_def nat_to_dec_nonempty nat_to_dec_digits dec_to_nat_def)

lemma ParseInt_FormatInt:
  assumes "- (2 ^ 63) \<le> i" and "i < 2 ^ 63"
  shows "ParseInt (FormatInt i) = Inr i"
proof (cases "i < 0")
  case True
  with assms have "nat (- i) < 2 ^ 64" by simp
  from ParseUint_nat_to_dec [OF this] True assms show ?thesis
    by (simp add: ParseInt_def FormatInt_def int_to_dec_def)
next
  case False
  with assms have "nat i < 2 ^ 64" by simp
  from ParseUint_nat_to_dec [OF this] False assms show ?thesis
    by (simp add: ParseInt_def FormatInt_def int_to_dec_def nat_to_dec_nonempty
        hd_nat_to_dec_no_sign)
qed

text \<open>
  An overflowing digit prefix is reported as out of range even when a byte that is not a
  digit follows it; a bad byte before any overflow is a syntax error.
\<close>

lemma ParseInt_overflow_before_bad_byte: "ParseInt ''99999999999999999999x'' = Inl ErrRange"
  by (simp add: ParseInt_def ParseUint_def is_digit_def digit_val_def ErrSyntax_def ErrRange_def)

lemma ParseInt_bad_byte_first: "ParseInt ''9x9999999999999999999'' = Inl ErrSyntax"
  by (simp add: ParseInt_def ParseUint_def is_digit_def digit_val_def ErrSyntax_def ErrRange_def)

lemma ParseInt_bounds:
  "ParseInt ''9223372036854775807'' = Inr 9223372036854775807"
  "ParseInt ''9223372036854775808'' = Inl ErrRange"
  "ParseInt ''-9223372036854775808'' = Inr (- 9223372036854775808)"
  "ParseInt ''-9223372036854775809'' = Inl ErrRange"
  "ParseInt ''+17'' = Inr 17"
  "ParseInt ''-'' = Inl ErrSyntax"
  by (simp_all add: ParseInt_def ParseUint_def is_digit_def digit_val_def ErrSyntax_def
      ErrRange_def)

lemma ComputeNewBalance_malformed:
  "bigint_of_string balance = None \<or> bigint_of_string balanceDelta = None \<Longrightarrow>
     ComputeNewBalance assetType balance balanceDelta = Inl ComputationError"
  by (auto simp: ComputeNewBalance_def split: option.splits)

lemma ComputeNewBalance_sum:
  "bigint_of_string balance = Some b \<Longrightarrow> bigint_of_string balanceDelta = Some d \<Longrightarrow>
     ComputeNewBalance assetType balance balanceDelta = Inr (string_of_bigint (b + d))"
  by (simp add: ComputeNewBalance_def)

section \<open>The asset resolver: computation and cache writes\<close>

lemma GetLatestAsset_compute_error:
  assumes reached:
      "Call_GetLatestAccountAssetMempoolDetail accountIndex assetId (commonAsset_GeneralAssetType pkg)
         \<in> set (snd (GetLatestAsset pkg svcCtx accountIndex assetId))"
    and found:
      "MempoolDetailModel_GetLatestAccountAssetMempoolDetail svcCtx accountIndex assetId
         (commonAsset_GeneralAssetType pkg) = (Some d, None)"
    and fails:
      "ComputeNewBalance (commonAsset_GeneralAssetType pkg) (MempoolTxDetail_Balance d)
         (MempoolTxDetail_BalanceDelta d) = Inl e"
  shows "fst (GetLatestAsset pkg svcCtx accountIndex assetId) = Return None (Some e) \<and>
         cache_writes (snd (GetLatestAsset pkg svcCtx accountIndex assetId)) = []"
  using assms unfolding GetLatestAsset_def
  by (auto simp add: Let_def split: prod.splits option.splits if_splits)

lemma GetLatestAsset_computed:
  assumes reached:
      "Call_GetLatestAccountAssetMempoolDetail accountIndex assetId (commonAsset_GeneralAssetType pkg)
         \<in> set (snd (GetLatestAsset pkg svcCtx accountIndex assetId))"
    and found:
      "MempoolDetailModel_GetLatestAccountAssetMempoolDetail svcCtx accountIndex assetId
         (commonAsset_GeneralAssetType pkg) = (Some d, None)"
    and ok:
      "ComputeNewBalance (commonAsset_GeneralAssetType pkg) (MempoolTxDetail_Balance d)
         (MempoolTxDetail_BalanceDelta d) = Inr s"
  shows "fst (GetLatestAsset pkg svcCtx accountIndex assetId) =
           Return (Some \<lparr>AccountAsset_AccountIndex = accountIndex,
                          AccountAsset_AssetId = assetId,
                          AccountAsset_Balance = s\<rparr>) None"
  using assms unfolding GetLatestAsset_def
  by (auto simp add: Let_def split: prod.splits option.splits if_splits)

lemma GetLatestAsset_cache_write_needs_lock:
  assumes "cache_writes (snd (GetLatestAsset pkg svcCtx accountIndex assetId)) \<noteq> []"
  shows "TryAcquireLock svcCtx
           (util_GetLockKey pkg (util_GetAccountAssetUniqueKey pkg accountIndex assetId)) = None"
  using assms unfolding GetLatestAsset_def
  apply (simp add: Let_def split: prod.splits option.splits if_splits)
  apply (auto split: sum.splits option.splits if_splits)
  done

lemma GetLatestAsset_not_found_everywhere:
  assumes miss:
      "RedisConnection_Get svcCtx (util_GetAccountAssetUniqueKey pkg accountIndex assetId) =
         ([], None)"
    and history:
      "AssetHistoryModel_GetSingleAccountAssetHistory svcCtx accountIndex assetId =
         (r, Some (asset_ErrNotFound pkg))"
    and table:
      "AssetModel_GetSingleAccountAsset svcCtx accountIndex assetId =
         (a, Some (asset_ErrNotFound pkg))"
    and mempool:
      "MempoolDetailModel_GetLatestAccountAssetMempoolDetail svcCtx accountIndex assetId
         (commonAsset_GeneralAssetType pkg) = (d, Some (mempool_ErrNotFound pkg))"
  shows "fst (GetLatestAsset pkg svcCtx accountIndex assetId) =
           (case a of
              None \<Rightarrow> Panic
            | Some row \<Rightarrow>
                Return (Some \<lparr>AccountAsset_AccountIndex = accountIndex,
                               AccountAsset_AssetId = assetId,
                               AccountAsset_Balance = AccountAsset_Balance row\<rparr>) None)"
  using assms unfolding GetLatestAsset_def
  by (cases a) (simp_all add: Let_def)

text \<open>
  Whenever a base balance is established from a row (of asset history, or of the base asset
  table after asset history answered not-found), a pending delta record with well-formed
  operands decides the answer: the balance is the record's own base plus its delta.
\<close>

lemma GetLatestAsset_pending_delta_applied:
  assumes miss:
      "RedisConnection_Get svcCtx (util_GetAccountAssetUniqueKey pkg accountIndex assetId) =
         ([], None)"
    and established:
      "AssetHistoryModel_GetSingleAccountAssetHistory svcCtx accountIndex assetId = (Some r, None) \<or>
       AssetHistoryModel_GetSingleAccountAssetHistory svcCtx accountIndex assetId =
         (x, Some (asset_ErrNotFound pkg)) \<and>
       AssetModel_GetSingleAccountAsset svcCtx accountIndex assetId = (Some row, e) \<and>
       (e = None \<or> e = Some (asset_ErrNotFound pkg))"
    and found:
      "MempoolDetailModel_GetLatestAccountAssetMempoolDetail svcCtx accountIndex assetId
         (commonAsset_GeneralAssetType pkg) = (Some d, None)"
    and base: "bigint_of_string (MempoolTxDetail_Balance d) = Some B"
    and delta: "bigint_of_string (MempoolTxDetail_BalanceDelta d) = Some D"
  shows "fst (GetLatestAsset pkg svcCtx accountIndex assetId) =
           Return (Some \<lparr>AccountAsset_AccountIndex = accountIndex,
                          AccountAsset_AssetId = assetId,
                          AccountAsset_Balance = string_of_bigint (B + D)\<rparr>) None"
proof -
  note sum = ComputeNewBalance_sum [OF base delta, of "commonAsset_GeneralAssetType pkg"]
  from established show ?thesis
  proof (elim disjE conjE)
    assume "AssetHistoryModel_GetSingleAccountAssetHistory svcCtx accountIndex assetId =
              (Some r, None)"
    with miss found sum show ?thesis
      unfolding GetLatestAsset_def by (simp add: Let_def)
  next
    assume "AssetHistoryModel_GetSingleAccountAssetHistory svcCtx accountIndex assetId =
              (x, Some (asset_ErrNotFound pkg))"
      and "AssetModel_GetSingleAccountAsset svcCtx accountIndex assetId = (Some row, e)"
      and "e = None"
    with miss found sum show ?thesis
      unfolding GetLatestAsset_def by (simp add: Let_def)
  next
    assume "AssetHistoryModel_GetSingleAccountAssetHistory svcCtx accountIndex assetId =
              (x, Some (asset_ErrNotFound pkg))"
      and "AssetModel_GetSingleAccountAsset svcCtx accountIndex assetId = (Some row, e)"
      and "e = Some (asset_ErrNotFound pkg)"
    with miss found sum show ?thesis
      unfolding GetLatestAsset_def by (simp add: Let_def)
  qed
qed

section \<open>The account resolver: what the lock result is used for\<close>

lemma GetLatestAccountInfo_cache_write_ignores_lock:
  assumes history:
      "AccountHistoryModel_GetAccountByAccountIndex svcCtx accountIndex = (Some h, None)"
    and miss: "RedisConnection_Get svcCtx (util_GetAccountKey pkg accountIndex) = ([], None)"
    and pending:
      "MempoolModel_GetLatestL2MempoolTxByAccountIndex svcCtx accountIndex = (Some tx, None)"
  shows "snd (GetLatestAccountInfo pkg svcCtx accountIndex) =
           [Call_GetAccountByAccountIndex accountIndex,
            Call_Redis_Get (util_GetAccountKey pkg accountIndex),
            Call_TryAcquireLock (util_GetLockKey pkg (util_GetAccountKey pkg accountIndex)),
            Call_GetLatestL2MempoolTxByAccountIndex accountIndex,
            Call_Redis_Setex (util_GetAccountKey pkg accountIndex)
              (FormatInt (MempoolTx_Nonce tx)) (BalanceExpiryTime pkg),
            Call_Release (util_GetLockKey pkg (util_GetAccountKey pkg accountIndex))]"
  using assms unfolding GetLatestAccountInfo_def
  by (simp add: Let_def)

lemma GetLatestAccountInfo_no_release_without_pending_tx:
  assumes history:
      "AccountHistoryModel_GetAccountByAccountIndex svcCtx accountIndex = (Some h, None)"
    and miss: "RedisConnection_Get svcCtx (util_GetAccountKey pkg accountIndex) = ([], None)"
    and failed:
      "MempoolModel_GetLatestL2MempoolTxByAccountIndex svcCtx accountIndex = (p, Some e)"
  shows "releases (snd (GetLatestAccountInfo pkg svcCtx accountIndex)) = []"
  using assms unfolding GetLatestAccountInfo_def
  by (simp add: Let_def)

section \<open>The lock outcome and the answer\<close>

lemma GetLatestAccountInfo_lock_independent:
  "apsnd (filter (\<lambda>c. \<not> is_repopulation c))
      (GetLatestAccountInfo pkg (svcCtx\<lparr>TryAcquireLock := l1\<rparr>) accountIndex) =
   apsnd (filter (\<lambda>c. \<not> is_repopulation c))
      (GetLatestAccountInfo pkg (svcCtx\<lparr>TryAcquireLock := l2\<rparr>) accountIndex)"
proof -
  obtain h he where h:
    "AccountHistoryModel_GetAccountByAccountIndex svcCtx accountIndex = (h, he)"
    by fastforce
  obtain v e where g: "RedisConnection_Get svcCtx (util_GetAccountKey pkg accountIndex) = (v, e)"
    by fastforce
  obtain p pe where m:
    "MempoolModel_GetLatestL2MempoolTxByAccountIndex svcCtx accountIndex = (p, pe)"
    by fastforce
  show ?thesis
    unfolding GetLatestAccountInfo_def using h g m
    by (cases he; cases h; cases e; cases pe; cases p; simp add: Let_def split: sum.splits)
qed

lemma GetLatestAsset_lock_independent:
  "apsnd (filter (\<lambda>c. \<not> is_repopulation c))
      (GetLatestAsset pkg (svcCtx\<lparr>TryAcquireLock := l1\<rparr>) accountIndex assetId) =
   apsnd (filter (\<lambda>c. \<not> is_repopulation c))
      (GetLatestAsset pkg (svcCtx\<lparr>TryAcquireLock := l2\<rparr>) accountIndex assetId)"
proof -
  obtain v e where g:
    "RedisConnection_Get svcCtx (util_GetAccountAssetUniqueKey pkg accountIndex assetId) = (v, e)"
    by fastforce
  obtain r he where h:
    "AssetHistoryModel_GetSingleAccountAssetHistory svcCtx accountIndex assetId = (r, he)"
    by fastforce
  obtain a ae where t:
    "AssetModel_GetSingleAccountAsset svcCtx accountIndex assetId = (a, ae)"
    by fastforce
  obtain d de where m:
    "MempoolDetailModel_GetLatestAccountAssetMempoolDetail svcCtx accountIndex assetId
       (commonAsset_GeneralAssetType pkg) = (d, de)"
    by fastforce
  note defs = GetLatestAsset_def Let_def
  show ?thesis
  proof (cases "e = None \<and> v = []")
    case False
    with g show ?thesis by (cases e) (simp_all add: defs)
  next
    case miss: True
    show ?thesis
    proof (cases he)
      case None
      show ?thesis
      proof (cases r)
        case None
        with g h miss \<open>he = None\<close> show ?thesis by (simp add: defs)
      next
        case (Some row)
        with g h m miss \<open>he = None\<close> show ?thesis
          by (cases de; cases d; simp add: defs split: sum.splits)
      qed
    next
      case (Some x)
      show ?thesis
      proof (cases "x = asset_ErrNotFound pkg \<and> (ae = None \<or> ae = Some (asset_ErrNotFound pkg))
                     \<and> a \<noteq> None")
        case False
        with g h t miss Some show ?thesis
          by (cases ae; cases a; simp add: defs)
      next
        case True
        then obtain row where "a = Some row" by auto
        with g h t m miss Some True show ?thesis
          by (cases ae; cases de; cases d; simp add: defs split: sum.splits)
      qed
    qed
  qed
qed

section \<open>Evaluation on the concrete deployment\<close>

lemmas example_defs = example_pkg_def example_svc_def example_history_def lock_denied_def
  pending_tx_def history_balance_def pending_delta_def malformed_delta_def

lemmas dec_eval = int_to_dec_def nat_to_dec.simps digit_char_def FormatInt_def
  signed_dec_def is_digit_def dec_to_nat_def digit_val_def bigint_of_string_def
  string_of_bigint_def ParseInt_def ParseUint_def ErrSyntax_def ErrRange_def

lemma asset_release_without_lock_on_mempool_error:
  "GetLatestAsset example_pkg
      (example_svc\<lparr>TryAcquireLock := lock_denied,
         AssetHistoryModel_GetSingleAccountAssetHistory := history_balance,
         MempoolDetailModel_GetLatestAccountAssetMempoolDetail :=
           (\<lambda>i a k. (None, Some (Error ''i/o timeout'')))\<rparr>) 42 1 =
     (Return None (Some (Error ''[GetLatestAssetByLock] i/o timeout'')),
      [Call_Redis_Get ''asset::42::1'', Call_TryAcquireLock ''lock::asset::42::1'',
       Call_GetSingleAccountAssetHistory 42 1,
       Call_GetLatestAccountAssetMempoolDetail 42 1 1,
       Call_Release ''lock::asset::42::1''])"
  by (simp add: GetLatestAsset_def example_defs dec_eval errors_New_def Let_def)

section \<open>The claims\<close>

text \<open>
  C1. On the cache-miss path the cache entry is written only if the lock was acquired.
  The asset resolver obeys this (\<open>GetLatestAsset_cache_write_needs_lock\<close>); the account
  resolver does not: its test \<open>err == nil\<close> reads the error of the mempool query, which
  shadows the result of \<open>TryAcquireLock\<close> (\<open>GetLatestAccountInfo_cache_write_ignores_lock\<close>).
  With the lock denied and a pending transaction of nonce 7, the nonce is written to the
  cache and the lock is released.
\<close>

theorem account_nonce_cached_without_lock:
  "TryAcquireLock
      (example_svc\<lparr>TryAcquireLock := lock_denied,
         MempoolModel_GetLatestL2MempoolTxByAccountIndex := pending_tx\<rparr>)
      (util_GetLockKey example_pkg (util_GetAccountKey example_pkg 42)) =
     Some (Error ''the lock has been used, re-try later'') \<and>
   GetLatestAccountInfo example_pkg
      (example_svc\<lparr>TryAcquireLock := lock_denied,
         MempoolModel_GetLatestL2MempoolTxByAccountIndex := pending_tx\<rparr>) 42 =
     (Return (Some \<lparr>Account_AccountIndex = 42, Account_AccountName = ''alice.legend'',
                     Account_PublicKey = ''pk'', Account_AccountNameHash = ''0a'',
                     Account_L1Address = ''0x01'', Account_Nonce = 7\<rparr>) None,
      [Call_GetAccountByAccountIndex 42, Call_Redis_Get ''account::42'',
       Call_TryAcquireLock ''lock::account::42'',
       Call_GetLatestL2MempoolTxByAccountIndex 42,
       Call_Redis_Setex ''account::42'' ''7'' 30,
       Call_Release ''lock::account::42''])"
  by (simp add: GetLatestAccountInfo_def example_defs dec_eval Let_def)

text \<open>
  C2. A lock that was acquired is released on every exit path, and only then. In the
  account resolver the release on the not-found path is guarded by \<open>err == nil\<close> inside
  the branch where \<open>err\<close> is the not-found sentinel, so it never runs
  (\<open>GetLatestAccountInfo_no_release_without_pending_tx\<close>): with the lock acquired and no
  pending transaction the attempt returns without a release.
\<close>

theorem account_lock_not_released_on_not_found:
  "TryAcquireLock example_svc
      (util_GetLockKey example_pkg (util_GetAccountKey example_pkg 42)) = None \<and>
   GetLatestAccountInfo example_pkg example_svc 42 =
     (Return (Some \<lparr>Account_AccountIndex = 42, Account_AccountName = ''alice.legend'',
                     Account_PublicKey = ''pk'', Account_AccountNameHash = ''0a'',
                     Account_L1Address = ''0x01'', Account_Nonce = 5\<rparr>) None,
      [Call_GetAccountByAccountIndex 42, Call_Redis_Get ''account::42'',
       Call_TryAcquireLock ''lock::account::42'',
       Call_GetLatestL2MempoolTxByAccountIndex 42]) \<and>
   releases (snd (GetLatestAccountInfo example_pkg example_svc 42)) = []"
  by (simp add: GetLatestAccountInfo_def example_defs dec_eval Let_def)

text \<open>
  C3. When the cache misses and asset history, base asset table and mempool all answer
  not-found, the asset resolver returns balance "0" without error. The code accepts the
  not-found answer of the base asset table and then reads the balance through the row
  pointer it came with: on the nil pointer the call panics
  (\<open>GetLatestAsset_not_found_everywhere\<close> gives the general form).
\<close>

theorem asset_never_referenced_panics:
  "RedisConnection_Get example_svc (util_GetAccountAssetUniqueKey example_pkg 42 1) = ([], None) \<and>
   AssetHistoryModel_GetSingleAccountAssetHistory example_svc 42 1 =
     (None, Some (asset_ErrNotFound example_pkg)) \<and>
   AssetModel_GetSingleAccountAsset example_svc 42 1 =
     (None, Some (asset_ErrNotFound example_pkg)) \<and>
   MempoolDetailModel_GetLatestAccountAssetMempoolDetail example_svc 42 1
     (commonAsset_GeneralAssetType example_pkg) = (None, Some (mempool_ErrNotFound example_pkg)) \<and>
   GetLatestAsset example_pkg example_svc 42 1 =
     (Panic,
      [Call_Redis_Get ''asset::42::1'', Call_TryAcquireLock ''lock::asset::42::1'',
       Call_GetSingleAccountAssetHistory 42 1, Call_GetSingleAccountAsset 42 1])"
  by (simp add: GetLatestAsset_def example_defs dec_eval Let_def)

lemma pending_delta_on_finalized_asset:
  "GetLatestAsset example_pkg
      (example_svc\<lparr>AssetHistoryModel_GetSingleAccountAssetHistory := history_balance,
         MempoolDetailModel_GetLatestAccountAssetMempoolDetail := pending_delta\<rparr>) 42 1 =
     (Return (Some \<lparr>AccountAsset_AccountIndex = 42, AccountAsset_AssetId = 1,
                     AccountAsset_Balance = ''99999999999999999999''\<rparr>) None,
      [Call_Redis_Get ''asset::42::1'', Call_TryAcquireLock ''lock::asset::42::1'',
       Call_GetSingleAccountAssetHistory 42 1,
       Call_GetLatestAccountAssetMempoolDetail 42 1 1,
       Call_Redis_Setex ''asset::42::1'' ''99999999999999999999'' 30,
       Call_Release ''lock::asset::42::1''])"
  by (simp add: GetLatestAsset_def example_defs Let_def ComputeNewBalance_def dec_eval)

text \<open>
  C4. When the cache misses and the mempool holds a pending delta record with base balance
  B and delta D, the asset resolver returns the decimal string of B + D, computed on
  unbounded integers from the record's own base. The code does so whenever a row
  establishes the base balance (\<open>GetLatestAsset_pending_delta_applied\<close>). For an asset
  the account never held in finalized state, asset history and the base asset table both
  answer not-found; the code then reads the balance through the nil row and panics before
  the mempool is queried, so the pending delta of -1 on a base of 10^20 is never applied.
\<close>

theorem pending_delta_never_finalized_panics:
  "RedisConnection_Get
      (example_svc\<lparr>MempoolDetailModel_GetLatestAccountAssetMempoolDetail := pending_delta\<rparr>)
      (util_GetAccountAssetUniqueKey example_pkg 42 1) = ([], None) \<and>
   AssetHistoryModel_GetSingleAccountAssetHistory
      (example_svc\<lparr>MempoolDetailModel_GetLatestAccountAssetMempoolDetail := pending_delta\<rparr>)
      42 1 = (None, Some (asset_ErrNotFound example_pkg)) \<and>
   AssetModel_GetSingleAccountAsset
      (example_svc\<lparr>MempoolDetailModel_GetLatestAccountAssetMempoolDetail := pending_delta\<rparr>)
      42 1 = (None, Some (asset_ErrNotFound example_pkg)) \<and>
   MempoolDetailModel_GetLatestAccountAssetMempoolDetail
      (example_svc\<lparr>MempoolDetailModel_GetLatestAccountAssetMempoolDetail := pending_delta\<rparr>)
      42 1 (commonAsset_GeneralAssetType example_pkg) =
     (Some \<lparr>MempoolTxDetail_Balance = ''100000000000000000000'',
            MempoolTxDetail_BalanceDelta = ''-1''\<rparr>, None) \<and>
   bigint_of_string ''100000000000000000000'' = Some 100000000000000000000 \<and>
   bigint_of_string ''-1'' = Some (- 1) \<and>
   GetLatestAsset example_pkg
      (example_svc\<lparr>MempoolDetailModel_GetLatestAccountAssetMempoolDetail := pending_delta\<rparr>)
      42 1 =
     (Panic,
      [Call_Redis_Get ''asset::42::1'', Call_TryAcquireLock ''lock::asset::42::1'',
       Call_GetSingleAccountAssetHistory 42 1, Call_GetSingleAccountAsset 42 1])"
  by (simp add: GetLatestAsset_def example_defs dec_eval Let_def)

text \<open>
  C5. When the nonce cache entry misses, the account resolver returns the nonce of the
  pending transaction if the mempool has one, and the persisted nonce otherwise; the
  identity fields come from the history store in both cases.
\<close>

theorem latest_nonce_pending_or_persisted:
  assumes history:
      "AccountHistoryModel_GetAccountByAccountIndex svcCtx accountIndex = (Some h, None)"
    and miss: "RedisConnection_Get svcCtx (util_GetAccountKey pkg accountIndex) = ([], None)"
  shows "(\<forall>tx. MempoolModel_GetLatestL2MempoolTxByAccountIndex svcCtx accountIndex = (Some tx, None) \<longrightarrow>
            fst (GetLatestAccountInfo pkg svcCtx accountIndex) =
              Return (Some \<lparr>Account_AccountIndex = AccountHistory_AccountIndex h,
                             Account_AccountName = AccountHistory_AccountName h,
                             Account_PublicKey = AccountHistory_PublicKey h,
                             Account_AccountNameHash = AccountHistory_AccountNameHash h,
                             Account_L1Address = AccountHistory_L1Address h,
                             Account_Nonce = MempoolTx_Nonce tx\<rparr>) None) \<and>
         (\<forall>p. MempoolModel_GetLatestL2MempoolTxByAccountIndex svcCtx accountIndex =
                 (p, Some (mempool_ErrNotFound pkg)) \<longrightarrow>
            fst (GetLatestAccountInfo pkg svcCtx accountIndex) =
              Return (Some \<lparr>Account_AccountIndex = AccountHistory_AccountIndex h,
                             Account_AccountName = AccountHistory_AccountName h,
                             Account_PublicKey = AccountHistory_PublicKey h,
                             Account_AccountNameHash = AccountHistory_AccountNameHash h,
                             Account_L1Address = AccountHistory_L1Address h,
                             Account_Nonce = AccountHistory_Nonce h\<rparr>) None)"
  using assms unfolding GetLatestAccountInfo_def
  by (simp add: Let_def)

theorem latest_nonce_pending_or_persisted_witness:
  "fst (GetLatestAccountInfo example_pkg
          (example_svc\<lparr>MempoolModel_GetLatestL2MempoolTxByAccountIndex := pending_tx\<rparr>) 42) =
     Return (Some \<lparr>Account_AccountIndex = 42, Account_AccountName = ''alice.legend'',
                    Account_PublicKey = ''pk'', Account_AccountNameHash = ''0a'',
                    Account_L1Address = ''0x01'', Account_Nonce = 7\<rparr>) None \<and>
   fst (GetLatestAccountInfo example_pkg example_svc 42) =
     Return (Some \<lparr>Account_AccountIndex = 42, Account_AccountName = ''alice.legend'',
                    Account_PublicKey = ''pk'', Account_AccountNameHash = ''0a'',
                    Account_L1Address = ''0x01'', Account_Nonce = 5\<rparr>) None"
proof -
  let ?svc = "example_svc\<lparr>MempoolModel_GetLatestL2MempoolTxByAccountIndex := pending_tx\<rparr>"
  have h1: "AccountHistoryModel_GetAccountByAccountIndex ?svc 42 = (Some example_history, None)"
    and m1: "RedisConnection_Get ?svc (util_GetAccountKey example_pkg 42) = ([], None)"
    and p1: "MempoolModel_GetLatestL2MempoolTxByAccountIndex ?svc 42 =
               (Some \<lparr>MempoolTx_Nonce = 7\<rparr>, None)"
    by (simp_all add: example_svc_def pending_tx_def)
  have h2: "AccountHistoryModel_GetAccountByAccountIndex example_svc 42 =
              (Some example_history, None)"
    and m2: "RedisConnection_Get example_svc (util_GetAccountKey example_pkg 42) = ([], None)"
    and p2: "MempoolModel_GetLatestL2MempoolTxByAccountIndex example_svc 42 =
               (None, Some (mempool_ErrNotFound example_pkg))"
    by (simp_all add: example_svc_def example_pkg_def)
  from latest_nonce_pending_or_persisted [OF h1 m1] p1
       latest_nonce_pending_or_persisted [OF h2 m2] p2
  show ?thesis by (simp add: example_history_def)
qed

text \<open>
  C6. The outcome of the lock acquisition never changes what a resolver returns (value or
  error), and changes no remote call other than the cache write and the lock release.
\<close>

theorem lock_outcome_only_affects_repopulation:
  "fst (GetLatestAccountInfo pkg (svcCtx\<lparr>TryAcquireLock := l1\<rparr>) accountIndex) =
     fst (GetLatestAccountInfo pkg (svcCtx\<lparr>TryAcquireLock := l2\<rparr>) accountIndex) \<and>
   filter (\<lambda>c. \<not> is_repopulation c)
       (snd (GetLatestAccountInfo pkg (svcCtx\<lparr>TryAcquireLock := l1\<rparr>) accountIndex)) =
     filter (\<lambda>c. \<not> is_repopulation c)
       (snd (GetLatestAccountInfo pkg (svcCtx\<lparr>TryAcquireLock := l2\<rparr>) accountIndex)) \<and>
   fst (GetLatestAsset pkg (svcCtx\<lparr>TryAcquireLock := l1\<rparr>) accountIndex assetId) =
     fst (GetLatestAsset pkg (svcCtx\<lparr>TryAcquireLock := l2\<rparr>) accountIndex assetId) \<and>
   filter (\<lambda>c. \<not> is_repopulation c)
       (snd (GetLatestAsset pkg (svcCtx\<lparr>TryAcquireLock := l1\<rparr>) accountIndex assetId)) =
     filter (\<lambda>c. \<not> is_repopulation c)
       (snd (GetLatestAsset pkg (svcCtx\<lparr>TryAcquireLock := l2\<rparr>) accountIndex assetId))"
proof -
  have n:
    "apsnd (filter (\<lambda>c. \<not> is_repopulation c))
        (GetLatestAccountInfo pkg (svcCtx\<lparr>TryAcquireLock := l1\<rparr>) accountIndex) =
     apsnd (filter (\<lambda>c. \<not> is_repopulation c))
        (GetLatestAccountInfo pkg (svcCtx\<lparr>TryAcquireLock := l2\<rparr>) accountIndex)"
    by (rule GetLatestAccountInfo_lock_independent)
  have a:
    "apsnd (filter (\<lambda>c. \<not> is_repopulation c))
        (GetLatestAsset pkg (svcCtx\<lparr>TryAcquireLock := l1\<rparr>) accountIndex assetId) =
     apsnd (filter (\<lambda>c. \<not> is_repopulation c))
        (GetLatestAsset pkg (svcCtx\<lparr>TryAcquireLock := l2\<rparr>) accountIndex assetId)"
    by (rule GetLatestAsset_lock_independent)
  from arg_cong [OF n, of fst] arg_cong [OF n, of snd]
       arg_cong [OF a, of fst] arg_cong [OF a, of snd]
  show ?thesis by simp
qed

text \<open>
  C7. When applying the pending delta fails on a malformed operand, the asset resolver
  returns the computation error and writes nothing to the cache.
\<close>

theorem malformed_delta_fails_without_cache_write:
  assumes reached:
      "Call_GetLatestAccountAssetMempoolDetail accountIndex assetId (commonAsset_GeneralAssetType pkg)
         \<in> set (snd (GetLatestAsset pkg svcCtx accountIndex assetId))"
    and found:
      "MempoolDetailModel_GetLatestAccountAssetMempoolDetail svcCtx accountIndex assetId
         (commonAsset_GeneralAssetType pkg) = (Some d, None)"
    and malformed:
      "bigint_of_string (MempoolTxDetail_Balance d) = None \<or>
       bigint_of_string (MempoolTxDetail_BalanceDelta d) = None"
  shows "fst (GetLatestAsset pkg svcCtx accountIndex assetId) = Return None (Some ComputationError) \<and>
         cache_writes (snd (GetLatestAsset pkg svcCtx accountIndex assetId)) = []"
  using GetLatestAsset_compute_error [OF reached found ComputeNewBalance_malformed [OF malformed]] .

theorem malformed_delta_fails_without_cache_write_witness:
  "fst (GetLatestAsset example_pkg
          (example_svc\<lparr>AssetHistoryModel_GetSingleAccountAssetHistory := history_balance,
             MempoolDetailModel_GetLatestAccountAssetMempoolDetail := malformed_delta\<rparr>) 42 1) =
     Return None (Some ComputationError) \<and>
   cache_writes (snd (GetLatestAsset example_pkg
          (example_svc\<lparr>AssetHistoryModel_GetSingleAccountAssetHistory := history_balance,
             MempoolDetailModel_GetLatestAccountAssetMempoolDetail := malformed_delta\<rparr>) 42 1)) = []"
proof -
  let ?svc = "example_svc\<lparr>AssetHistoryModel_GetSingleAccountAssetHistory := history_balance,
             MempoolDetailModel_GetLatestAccountAssetMempoolDetail := malformed_delta\<rparr>"
  let ?d = "\<lparr>MempoolTxDetail_Balance = ''100'', MempoolTxDetail_BalanceDelta = ''abc''\<rparr>"
  have reached: "Call_GetLatestAccountAssetMempoolDetail 42 1 (commonAsset_GeneralAssetType example_pkg)
         \<in> set (snd (GetLatestAsset example_pkg ?svc 42 1))"
    by (simp add: GetLatestAsset_def example_defs Let_def ComputeNewBalance_def dec_eval)
  have found: "MempoolDetailModel_GetLatestAccountAssetMempoolDetail ?svc 42 1
         (commonAsset_GeneralAssetType example_pkg) = (Some ?d, None)"
    by (simp add: example_defs)
  have malformed: "bigint_of_string (MempoolTxDetail_Balance ?d) = None \<or>
       bigint_of_string (MempoolTxDetail_BalanceDelta ?d) = None"
    by (simp add: dec_eval)
  from malformed_delta_fails_without_cache_write [OF reached found malformed]
  show ?thesis .
qed

text \<open>
  C8, as amended. On a cache hit the asset resolver returns the cached balance, and the
  account resolver returns the account with the cached nonce when the cached string parses
  as an int64 and the parse error otherwise; in every case no lock is requested, no
  mempool, asset-history or base-asset-table query is made and nothing is written to the
  cache.
\<close>

theorem cache_hit_consults_no_lower_tier:
  "(RedisConnection_Get svcCtx (util_GetAccountAssetUniqueKey pkg accountIndex assetId) = (v, None) \<and>
    v \<noteq> [] \<longrightarrow>
      GetLatestAsset pkg svcCtx accountIndex assetId =
        (Return (Some \<lparr>AccountAsset_AccountIndex = accountIndex,
                        AccountAsset_AssetId = assetId,
                        AccountAsset_Balance = v\<rparr>) None,
         [Call_Redis_Get (util_GetAccountAssetUniqueKey pkg accountIndex assetId)]) \<and>
      filter is_lower_tier (snd (GetLatestAsset pkg svcCtx accountIndex assetId)) = []) \<and>
   (AccountHistoryModel_GetAccountByAccountIndex svcCtx accountIndex = (Some h, None) \<and>
    RedisConnection_Get svcCtx (util_GetAccountKey pkg accountIndex) = (v, None) \<and>
    v \<noteq> [] \<longrightarrow>
      GetLatestAccountInfo pkg svcCtx accountIndex =
        (case ParseInt v of
           Inl err \<Rightarrow>
             (Return None (Some err),
              [Call_GetAccountByAccountIndex accountIndex,
               Call_Redis_Get (util_GetAccountKey pkg accountIndex)])
         | Inr nonce \<Rightarrow>
             (Return (Some \<lparr>Account_AccountIndex = AccountHistory_AccountIndex h,
                             Account_AccountName = AccountHistory_AccountName h,
                             Account_PublicKey = AccountHistory_PublicKey h,
                             Account_AccountNameHash = AccountHistory_AccountNameHash h,
                             Account_L1Address = AccountHistory_L1Address h,
                             Account_Nonce = nonce\<rparr>) None,
              [Call_GetAccountByAccountIndex accountIndex,
               Call_Redis_Get (util_GetAccountKey pkg accountIndex),
               Call_Redis_Expire (util_GetAccountKey pkg accountIndex) (BalanceExpiryTime pkg)])) \<and>
      filter is_lower_tier (snd (GetLatestAccountInfo pkg svcCtx accountIndex)) = [])"
  unfolding GetLatestAccountInfo_def GetLatestAsset_def
  by (simp add: Let_def split: sum.splits)

theorem cache_hit_consults_no_lower_tier_witness:
  "GetLatestAsset example_pkg (example_svc\<lparr>RedisConnection_Get := (\<lambda>k. (''250'', None))\<rparr>) 42 1 =
     (Return (Some \<lparr>AccountAsset_AccountIndex = 42, AccountAsset_AssetId = 1,
                     AccountAsset_Balance = ''250''\<rparr>) None,
      [Call_Redis_Get ''asset::42::1'']) \<and>
   GetLatestAccountInfo example_pkg
      (example_svc\<lparr>RedisConnection_Get := (\<lambda>k. (''12'', None))\<rparr>) 42 =
     (Return (Some \<lparr>Account_AccountIndex = 42, Account_AccountName = ''alice.legend'',
                     Account_PublicKey = ''pk'', Account_AccountNameHash = ''0a'',
                     Account_L1Address = ''0x01'', Account_Nonce = 12\<rparr>) None,
      [Call_GetAccountByAccountIndex 42, Call_Redis_Get ''account::42'',
       Call_Redis_Expire ''account::42'' 30]) \<and>
   filter is_lower_tier (snd (GetLatestAccountInfo example_pkg
          (example_svc\<lparr>RedisConnection_Get := (\<lambda>k. (''12'', None))\<rparr>) 42)) = []"
proof -
  let ?a = "example_svc\<lparr>RedisConnection_Get := (\<lambda>k. (''250'', None))\<rparr>"
  let ?n = "example_svc\<lparr>RedisConnection_Get := (\<lambda>k. (''12'', None))\<rparr>"
  have a: "RedisConnection_Get ?a (util_GetAccountAssetUniqueKey example_pkg 42 1) = (''250'', None) \<and>
           ''250'' \<noteq> []"
    by simp
  have n: "AccountHistoryModel_GetAccountByAccountIndex ?n 42 = (Some example_history, None) \<and>
           RedisConnection_Get ?n (util_GetAccountKey example_pkg 42) = (''12'', None) \<and>
           ''12'' \<noteq> []"
    by (simp add: example_svc_def)
  have p: "ParseInt ''12'' = Inr 12"
    by (simp add: dec_eval)
  have k: "util_GetAccountAssetUniqueKey example_pkg 42 1 = ''asset::42::1''"
          "util_GetAccountKey example_pkg 42 = ''account::42''"
          "BalanceExpiryTime example_pkg = 30"
    by (simp_all add: example_pkg_def dec_eval)
  from cache_hit_consults_no_lower_tier [of ?a example_pkg 42 1 "''250''"] a k
       cache_hit_consults_no_lower_tier [of ?n example_pkg 42 1 "''12''" example_history] n p
  show ?thesis by (simp add: example_history_def)
qed

text \<open>
  C8 as stated fails on a hit whose cached nonce is not a number: the resolver returns
  the parse error, not the cached value.
\<close>

theorem cache_hit_malformed_nonce_counterexample:
  "RedisConnection_Get (example_svc\<lparr>RedisConnection_Get := (\<lambda>k. (''abc'', None))\<rparr>)
      (util_GetAccountKey example_pkg 42) = (''abc'', None) \<and>
   GetLatestAccountInfo example_pkg (example_svc\<lparr>RedisConnection_Get := (\<lambda>k. (''abc'', None))\<rparr>) 42 =
     (Return None (Some ErrSyntax),
      [Call_GetAccountByAccountIndex 42, Call_Redis_Get ''account::42''])"
  by (simp add: GetLatestAccountInfo_def example_defs dec_eval Let_def)

text \<open>
  C9. An error of the cache get operation is returned to the caller unchanged, and no
  lower tier is consulted after it.
\<close>

theorem cache_get_error_is_propagated:
  "(RedisConnection_Get svcCtx (util_GetAccountAssetUniqueKey pkg accountIndex assetId) = (v, Some e) \<longrightarrow>
      GetLatestAsset pkg svcCtx accountIndex assetId =
        (Return None (Some e),
         [Call_Redis_Get (util_GetAccountAssetUniqueKey pkg accountIndex assetId)])) \<and>
   (AccountHistoryModel_GetAccountByAccountIndex svcCtx accountIndex = (Some h, None) \<and>
    RedisConnection_Get svcCtx (util_GetAccountKey pkg accountIndex) = (v, Some e) \<longrightarrow>
      GetLatestAccountInfo pkg svcCtx accountIndex =
        (Return None (Some e),
         [Call_GetAccountByAccountIndex accountIndex,
          Call_Redis_Get (util_GetAccountKey pkg accountIndex)]))"
  unfolding GetLatestAccountInfo_def GetLatestAsset_def
  by (simp add: Let_def)

theorem cache_get_error_is_propagated_witness:
  "GetLatestAsset example_pkg
      (example_svc\<lparr>RedisConnection_Get := (\<lambda>k. ([], Some (Error ''i/o timeout'')))\<rparr>) 42 1 =
     (Return None (Some (Error ''i/o timeout'')), [Call_Redis_Get ''asset::42::1'']) \<and>
   GetLatestAccountInfo example_pkg
      (example_svc\<lparr>RedisConnection_Get := (\<lambda>k. ([], Some (Error ''i/o timeout'')))\<rparr>) 42 =
     (Return None (Some (Error ''i/o timeout'')),
      [Call_GetAccountByAccountIndex 42, Call_Redis_Get ''account::42''])"
proof -
  let ?svc = "example_svc\<lparr>RedisConnection_Get := (\<lambda>k. ([], Some (Error ''i/o timeout'')))\<rparr>"
  have a: "RedisConnection_Get ?svc (util_GetAccountAssetUniqueKey example_pkg 42 1) =
             ([], Some (Error ''i/o timeout''))"
    by simp
  have n: "AccountHistoryModel_GetAccountByAccountIndex ?svc 42 = (Some example_history, None) \<and>
           RedisConnection_Get ?svc (util_GetAccountKey example_pkg 42) =
             ([], Some (Error ''i/o timeout''))"
    by (simp add: example_svc_def)
  have k: "util_GetAccountAssetUniqueKey example_pkg 42 1 = ''asset::42::1''"
          "util_GetAccountKey example_pkg 42 = ''account::42''"
    by (simp_all add: example_pkg_def dec_eval)
  from cache_get_error_is_propagated [of ?svc example_pkg 42 1 "[]" "Error ''i/o timeout''" example_history]
       a n k
  show ?thesis by simp
qed

end
